theory Spec2Isabelle
  imports Complex_Main "HOL-Library.AList"
begin

section \<open>Rep counter (api/websocket.py, class RepCounter)\<close>

text \<open>
  A keypoint is a Python dict from field names to numbers; the counter reads the fields
  \<open>y\<close> and \<open>confidence\<close> with \<open>dict.get(key, 0)\<close>. Python floats are modelled as
  real numbers, and the wall clock \<open>time.time()\<close> is an argument of the update.
\<close>

type_synonym keypoint = "string \<rightharpoonup> real"

definition dict_get :: "('k \<rightharpoonup> 'v) \<Rightarrow> 'k \<Rightarrow> 'v \<Rightarrow> 'v" where
  "dict_get d k dflt = (case d k of None \<Rightarrow> dflt | Some v \<Rightarrow> v)"

record rep_counter =
  keypoint_idx :: nat
  positions :: "real list"
  max_positions :: nat
  going_up :: "bool option"
  rep_count :: nat
  last_rep_time :: real

text \<open>\<open>RepCounter.__init__(keypoint_idx=9)\<close>.\<close>

definition RepCounter :: "nat \<Rightarrow> rep_counter" where
  "RepCounter idx =
     \<lparr>keypoint_idx = idx, positions = [], max_positions = 10, going_up = None,
      rep_count = 0, last_rep_time = 0\<rparr>"

text \<open>
  Lines 127-129: \<open>self.positions.append(current_y)\<close>, then \<open>pop(0)\<close> when the list is
  longer than \<open>max_positions\<close>.
\<close>

definition push_position :: "rep_counter \<Rightarrow> real \<Rightarrow> real list" where
  "push_position self current_y =
     (let appended = positions self @ [current_y]
      in if length appended > max_positions self then tl appended else appended)"

text \<open>Line 136-137: the newest sample against the average of all the others.\<close>

definition direction_of :: "real list \<Rightarrow> real \<Rightarrow> bool" where
  "direction_of ps current_y =
     (let avg_prev = sum_list (butlast ps) / real (length ps - 1)
      in current_y < avg_prev)"

text \<open>Lines 140-151: the rep is counted on a direction change that passes both gates.\<close>

definition count_rep :: "rep_counter \<Rightarrow> bool \<Rightarrow> real \<Rightarrow> rep_counter" where
  "count_rep self direction_up current_time =
     (if going_up self \<noteq> None \<and> going_up self \<noteq> Some direction_up then
        (if current_time - last_rep_time self > 0.5 then
           (if \<bar>Max (set (positions self)) - Min (set (positions self))\<bar> > 0.15
            then self\<lparr>rep_count := rep_count self + 1, last_rep_time := current_time\<rparr>
            else self)
         else self)
      else self)"

text \<open>
  Lines 119-120: the fields read at the tracked index,
  \<open>keypoints[self.keypoint_idx].get("y", 0)\<close> and \<open>.get("confidence", 0)\<close>.
\<close>

definition tracked_y :: "rep_counter \<Rightarrow> keypoint list \<Rightarrow> real" where
  "tracked_y self keypoints = dict_get (keypoints ! keypoint_idx self) ''y'' 0"

definition tracked_confidence :: "rep_counter \<Rightarrow> keypoint list \<Rightarrow> real" where
  "tracked_confidence self keypoints =
     dict_get (keypoints ! keypoint_idx self) ''confidence'' 0"

text \<open>\<open>RepCounter.update\<close>: the new state and the returned count.\<close>

definition update :: "rep_counter \<Rightarrow> keypoint list \<Rightarrow> real \<Rightarrow> rep_counter \<times> nat" where
  "update self keypoints now =
     (if keypoints = [] \<or> length keypoints \<le> keypoint_idx self then (self, rep_count self)
      else
        let current_y = tracked_y self keypoints;
            current_confidence = tracked_confidence self keypoints
        in if current_confidence < 0.5 then (self, rep_count self)
           else
             let self1 = self\<lparr>positions := push_position self current_y\<rparr>
             in if length (positions self1) < 3 then (self1, rep_count self1)
                else
                  let direction_up = direction_of (positions self1) current_y;
                      self2 = count_rep self1 direction_up now;
                      self3 = self2\<lparr>going_up := Some direction_up\<rparr>
                  in (self3, rep_count self3))"

text \<open>
  A session feeds the counter one frame after the other; each frame comes with the clock
  reading of its call. \<open>run\<close> is the final state, \<open>rep_times\<close> the clock readings of
  the calls that raised the count.
\<close>

fun run :: "rep_counter \<Rightarrow> (keypoint list \<times> real) list \<Rightarrow> rep_counter" where
  "run self [] = self"
| "run self ((keypoints, now) # rest) = run (fst (update self keypoints now)) rest"

fun rep_times :: "rep_counter \<Rightarrow> (keypoint list \<times> real) list \<Rightarrow> real list" where
  "rep_times self [] = []"
| "rep_times self ((keypoints, now) # rest) =
     (let self' = fst (update self keypoints now)
      in (if rep_count self' > rep_count self then [now] else []) @ rep_times self' rest)"

text \<open>
  A synthetic oscillation for the counter: the tracked keypoint is entry 9 of a list of ten,
  read with confidence 0.9; its vertical position moves between 0.2 and 0.8, amplitude 0.3
  around 0.5, one cycle in eight frames; \<open>timed_frames\<close> stamps successive frames \<open>dt\<close> seconds apart.
\<close>

definition oscillation_frame :: "real \<Rightarrow> keypoint list" where
  "oscillation_frame y = replicate 9 Map.empty @ [[''y'' \<mapsto> y, ''confidence'' \<mapsto> 0.9]]"

definition oscillation_cycle :: "real list" where
  "oscillation_cycle = [0.6, 0.75, 0.8, 0.65, 0.4, 0.25, 0.2, 0.35]"

fun timed_frames :: "real \<Rightarrow> real \<Rightarrow> real list \<Rightarrow> (keypoint list \<times> real) list" where
  "timed_frames t dt [] = []"
| "timed_frames t dt (y # ys) = (oscillation_frame y, t) # timed_frames (t + dt) dt ys"

text \<open>A counter in mid-descent, two samples buffered, direction flag \<open>False\<close>.\<close>

definition falling_counter :: rep_counter where
  "falling_counter =
     \<lparr>keypoint_idx = 0, positions = [0.8, 0.6], max_positions = 10, going_up = Some False,
      rep_count = 0, last_rep_time = 0\<rparr>"

section \<open>Origin gate (api/websocket.py, cors_validation)\<close>








section \<open>Inference client (api/websocket.py, call_inference_service)\<close>

text \<open>
  JSON objects are Python dicts, kept as association lists in insertion order. The list
  stored under \<open>keypoints\<close> has the annotated type \<open>List[Dict[str, Any]]\<close> with numeric
  fields.
\<close>

datatype jvalue =
    JNull
  | JBool bool
  | JInt int
  | JNum real
  | JStr string
  | JKeypoints "keypoint list"

type_synonym dict = "(string \<times> jvalue) list"

text \<open>
  The exceptions the handlers tell apart: \<open>asyncio.TimeoutError\<close>, and any other
  \<open>Exception\<close> with the text \<open>str(e)\<close>.
\<close>

datatype py_exception = TimeoutError | Exception string

text \<open>
  What the HTTP layer gives back from the one \<open>session.post\<close>: an exception, or a
  response with its status and the outcome of \<open>await response.json()\<close>.
\<close>

record response =
  status :: nat
  json :: "py_exception + dict"

type_synonym transport = "string \<Rightarrow> string \<Rightarrow> py_exception + response"

definition digit_char :: "nat \<Rightarrow> char" where
  "digit_char d = char_of (48 + d)"

fun str_nat :: "nat \<Rightarrow> string" where
  "str_nat n = (if n < 10 then [digit_char n] else str_nat (n div 10) @ [digit_char (n mod 10)])"

declare str_nat.simps [simp del]

text \<open>Lines 83-93, the body of the \<open>try\<close>: exceptions pass through.\<close>

definition post_inference :: "transport \<Rightarrow> string \<Rightarrow> string \<Rightarrow> py_exception + dict" where
  "post_inference post inference_url frame_data =
     (case post (inference_url @ ''/inference'') frame_data of
        Inl e \<Rightarrow> Inl e
      | Inr resp \<Rightarrow>
          if status resp \<noteq> 200
          then Inr [(''error'', JStr (''Inference service error: '' @ str_nat (status resp)))]
          else json resp)"

text \<open>
  \<open>call_inference_service\<close>: the \<open>try\<close> with its two handlers. The result is paired
  with the requests issued, each a URL and the frame posted to it.
\<close>

definition call_inference_service ::
  "(string \<rightharpoonup> string) \<Rightarrow> transport \<Rightarrow> string \<Rightarrow> (py_exception + dict) \<times> (string \<times> string) list" where
  "call_inference_service environ post frame_data =
     (let inference_url = dict_get environ ''INFERENCE_SERVICE_URL'' ''http://inference-service:8000''
      in (case post_inference post inference_url frame_data of
            Inr result \<Rightarrow> Inr result
          | Inl TimeoutError \<Rightarrow> Inr [(''error'', JStr ''Inference service timeout'')]
          | Inl (Exception e) \<Rightarrow>
              Inr [(''error'', JStr (''Error calling inference service: '' @ e))],
          [(inference_url @ ''/inference'', frame_data)]))"

text \<open>
  The URL the frame is posted to, and three transports: a service that answers 503, one
  that never answers within the timeout, one that refuses the connection.
\<close>

definition inference_url :: "(string \<rightharpoonup> string) \<Rightarrow> string" where
  "inference_url environ =
     dict_get environ ''INFERENCE_SERVICE_URL'' ''http://inference-service:8000'' @ ''/inference''"

definition unavailable :: transport where
  "unavailable url body = Inr \<lparr>status = 503, json = Inr []\<rparr>"

definition silent :: transport where
  "silent url body = Inl TimeoutError"

definition refused :: transport where
  "refused url body = Inl (Exception ''Connection refused'')"

section \<open>Connection manager (core/managers.py)\<close>

text \<open>
  A WebSocket is an object of the framework, shared by reference: the manager holds
  handles into a store of sockets. \<open>send_json\<close> on a healthy socket appends the message to
  what the peer has been sent; on a stale socket it raises the socket's exception. The clock
  is the sequence of readings that successive calls of \<open>time.time()\<close> return.
\<close>

record socket =
  failure :: "py_exception option"
  outbox :: "dict list"

record world =
  sockets :: "nat \<Rightarrow> socket"
  clock :: "nat \<Rightarrow> real"
  ticks :: nat

definition send_json :: "world \<Rightarrow> nat \<Rightarrow> dict \<Rightarrow> py_exception + world" where
  "send_json w ws message =
     (case failure (sockets w ws) of
        Some e \<Rightarrow> Inl e
      | None \<Rightarrow>
          Inr (w\<lparr>sockets := (sockets w)(ws := (sockets w ws)\<lparr>outbox := outbox (sockets w ws) @ [message]\<rparr>)\<rparr>))"

definition time_time :: "world \<Rightarrow> real \<times> world" where
  "time_time w = (clock w (ticks w), w\<lparr>ticks := ticks w + 1\<rparr>)"

text \<open>
  \<open>active_connections\<close> is iterated by \<open>broadcast\<close>, so it keeps the insertion order of the
  dict; \<open>last_activity\<close> is only read and written by key.
\<close>

record manager =
  active_connections :: "(string \<times> nat) list"
  last_activity :: "string \<rightharpoonup> real"

text \<open>The outcome of a call that may raise: the state it leaves behind either way.\<close>

datatype 'a outcome = Returned 'a | Raised py_exception 'a


definition ConnectionManager :: manager where
  "ConnectionManager = \<lparr>active_connections = [], last_activity = Map.empty\<rparr>"

definition connect :: "manager \<Rightarrow> world \<Rightarrow> nat \<Rightarrow> string \<Rightarrow> manager \<times> world" where
  "connect self w websocket client_id =
     (let (now, w') = time_time w
      in (self\<lparr>active_connections := AList.update client_id websocket (active_connections self),
               last_activity := (last_activity self)(client_id \<mapsto> now)\<rparr>, w'))"



text \<open>
  \<open>broadcast\<close>: the loop over \<open>self.active_connections.items()\<close>, run without another task
  changing the registry in between. Nothing in the loop catches an exception of
  \<open>send_json\<close>.
\<close>

fun broadcast_loop ::
  "(string \<times> nat) list \<Rightarrow> manager \<Rightarrow> world \<Rightarrow> dict \<Rightarrow> (manager \<times> world) outcome" where
  "broadcast_loop [] self w message = Returned (self, w)"
| "broadcast_loop ((client_id, websocket) # items) self w message =
     (case send_json w websocket message of
        Inl e \<Rightarrow> Raised e (self, w)
      | Inr w1 \<Rightarrow>
          let (now, w2) = time_time w1
          in broadcast_loop items
               (self\<lparr>last_activity := (last_activity self)(client_id \<mapsto> now)\<rparr>) w2 message)"

definition broadcast :: "manager \<Rightarrow> world \<Rightarrow> dict \<Rightarrow> (manager \<times> world) outcome" where
  "broadcast self w message = broadcast_loop (active_connections self) self w message"



text \<open>
  Two registries for the examples: \<open>c1\<close> on socket 1 and \<open>c2\<close> on socket 2, last active
  at 5 and 6; in \<open>stale_world\<close> socket 1 has gone stale, in \<open>healthy_world\<close> both sockets
  work. The clock reads 50, 51, 52, ...
\<close>

definition two_clients :: manager where
  "two_clients =
     \<lparr>active_connections = [(''c1'', 1), (''c2'', 2)],
      last_activity = [''c1'' \<mapsto> 5, ''c2'' \<mapsto> 6]\<rparr>"

definition healthy_world :: world where
  "healthy_world =
     \<lparr>sockets = (\<lambda>ws. \<lparr>failure = None, outbox = []\<rparr>), clock = (\<lambda>n. 50 + real n), ticks = 0\<rparr>"

definition stale_world :: world where
  "stale_world =
     healthy_world\<lparr>sockets := (sockets healthy_world)
        (1 := \<lparr>failure = Some (Exception ''connection closed''), outbox = []\<rparr>)\<rparr>"

definition notice :: dict where
  "notice = [(''type'', JStr ''notice'')]"

section \<open>Session loop (api/websocket.py, websocket_endpoint)\<close>

record session =
  rep_counter :: rep_counter
  exercise_type :: string
  last_frame_time :: real
  processed_frames :: nat

definition analyze_form :: "keypoint list \<Rightarrow> string \<Rightarrow> string" where
  "analyze_form keypoints exercise = (if keypoints = [] \<or> length keypoints < 10 then ''unknown'' else ''good'')"

text \<open>
  The value stored under \<open>keypoints\<close> reaches \<open>update\<close> and \<open>analyze_form\<close> as it is.
  For a list of keypoints these are the functions above. For a value that is not a list,
  Python's \<open>not keypoints\<close> and \<open>len(keypoints)\<close> decide: a false value returns at the
  first test, a true value without a length raises \<open>TypeError\<close>, and a string is measured
  like a list, but its characters have no \<open>get\<close>.
\<close>

definition py_true :: "jvalue \<Rightarrow> bool" where
  "py_true v =
     (case v of
        JNull \<Rightarrow> False
      | JBool b \<Rightarrow> b
      | JInt i \<Rightarrow> i \<noteq> 0
      | JNum r \<Rightarrow> r \<noteq> 0
      | JStr text \<Rightarrow> text \<noteq> []
      | JKeypoints keypoints \<Rightarrow> keypoints \<noteq> [])"

definition quoted :: "string \<Rightarrow> string" where
  "quoted text = [CHR 0x27] @ text @ [CHR 0x27]"

definition py_len :: "jvalue \<Rightarrow> py_exception + nat" where
  "py_len v =
     (case v of
        JNull \<Rightarrow> Inl (Exception (''object of type '' @ quoted ''NoneType'' @ '' has no len()''))
      | JBool b \<Rightarrow> Inl (Exception (''object of type '' @ quoted ''bool'' @ '' has no len()''))
      | JInt i \<Rightarrow> Inl (Exception (''object of type '' @ quoted ''int'' @ '' has no len()''))
      | JNum r \<Rightarrow> Inl (Exception (''object of type '' @ quoted ''float'' @ '' has no len()''))
      | JStr text \<Rightarrow> Inr (length text)
      | JKeypoints keypoints \<Rightarrow> Inr (length keypoints))"

definition update_any :: "rep_counter \<Rightarrow> jvalue \<Rightarrow> real \<Rightarrow> py_exception + rep_counter \<times> nat" where
  "update_any self v now =
     (case v of
        JKeypoints keypoints \<Rightarrow> Inr (update self keypoints now)
      | _ \<Rightarrow>
          if \<not> py_true v then Inr (self, rep_count self)
          else (case py_len v of
                  Inl e \<Rightarrow> Inl e
                | Inr n \<Rightarrow>
                    if n \<le> keypoint_idx self then Inr (self, rep_count self)
                    else Inl (Exception (quoted ''str'' @ '' object has no attribute '' @ quoted ''get''))))"

definition analyze_form_any :: "jvalue \<Rightarrow> string \<Rightarrow> py_exception + string" where
  "analyze_form_any v exercise =
     (case v of
        JKeypoints keypoints \<Rightarrow> Inr (analyze_form keypoints exercise)
      | _ \<Rightarrow>
          if \<not> py_true v then Inr ''unknown''
          else (case py_len v of
                  Inl e \<Rightarrow> Inl e
                | Inr n \<Rightarrow> Inr (if n < 10 then ''unknown'' else ''good'')))"

text \<open>
  Lines 261-281: what the loop does with the result of the inference call, the session it
  leaves and the message it sends.
\<close>

definition relay_result :: "session \<Rightarrow> dict \<Rightarrow> real \<Rightarrow> py_exception + session \<times> dict" where
  "relay_result sess analysis_results now =
     (if map_of analysis_results ''error'' \<noteq> None then Inr (sess, analysis_results)
      else case map_of analysis_results ''keypoints'' of
             None \<Rightarrow> Inr (sess, analysis_results)
           | Some keypoints \<Rightarrow>
               (case update_any (rep_counter sess) keypoints now of
                  Inl e \<Rightarrow> Inl e
                | Inr (counter, count) \<Rightarrow>
                    let sess1 = sess\<lparr>rep_counter := counter\<rparr>;
                        results1 = AList.update ''rep_count'' (JInt (int count)) analysis_results
                    in if py_true keypoints
                       then (case analyze_form_any keypoints (exercise_type sess1) of
                               Inl e \<Rightarrow> Inl e
                             | Inr form_quality \<Rightarrow>
                                 Inr (sess1, AList.update ''form_quality'' (JStr form_quality) results1))
                       else Inr (sess1, results1)))"

text \<open>The session of a fresh connection (lines 205-211).\<close>

definition new_session :: "real \<Rightarrow> session" where
  "new_session now =
     \<lparr>rep_counter = RepCounter 9, exercise_type = ''squat'', last_frame_time = now,
      processed_frames = 0\<rparr>"

text \<open>
  Two results of the inference service without an \<open>error\<close> entry: one with no keypoints
  entry, one with the ten keypoints of an oscillation frame.
\<close>

definition no_pose :: dict where
  "no_pose = [(''status'', JStr ''no person detected'')]"

definition pose :: dict where
  "pose = [(''keypoints'', JKeypoints (oscillation_frame 0.5))]"

section \<open>Properties of the rep counter\<close>

lemma count_rep_fields [simp]:
  "positions (count_rep s d t) = positions s"
  "going_up (count_rep s d t) = going_up s"
  "keypoint_idx (count_rep s d t) = keypoint_idx s"
  "max_positions (count_rep s d t) = max_positions s"
  by (simp_all add: count_rep_def)

lemma count_rep_cases:
  "(rep_count (count_rep s d t) = rep_count s \<and> last_rep_time (count_rep s d t) = last_rep_time s) \<or>
   (rep_count (count_rep s d t) = rep_count s + 1 \<and> last_rep_time (count_rep s d t) = t
      \<and> t - last_rep_time s > 0.5)"
  by (simp add: count_rep_def)

text \<open>A call either leaves count and timestamp alone, or counts one rep past the debounce.\<close>

lemma update_count_cases:
  "(rep_count (fst (update s k t)) = rep_count s \<and> last_rep_time (fst (update s k t)) = last_rep_time s) \<or>
   (rep_count (fst (update s k t)) = rep_count s + 1 \<and> last_rep_time (fst (update s k t)) = t
      \<and> t - last_rep_time s > 0.5)"
  using count_rep_cases [of "s\<lparr>positions := push_position s (tracked_y s k)\<rparr>" _ t]
  by (auto simp: update_def Let_def)

lemma update_returns_count: "snd (update s k t) = rep_count (fst (update s k t))"
  by (simp add: update_def Let_def)

lemma update_positions:
  "positions (fst (update s k t)) =
     (if keypoint_idx s < length k \<and> 0.5 \<le> tracked_confidence s k
      then push_position s (tracked_y s k) else positions s)"
  by (auto simp: update_def Let_def)

lemma update_max_positions: "max_positions (fst (update s k t)) = max_positions s"
  by (auto simp: update_def Let_def)

lemma push_position_fifo:
  "max_positions s = 10 \<Longrightarrow> length (positions s) \<le> 10 \<Longrightarrow>
   push_position s y =
     (if length (positions s) < 10 then positions s @ [y] else tl (positions s) @ [y])"
  by (cases "positions s") (auto simp: push_position_def Let_def)

lemma rep_times_after_last:
  "\<forall>t \<in> set (rep_times s inputs). t - last_rep_time s > 0.5"
proof (induction inputs arbitrary: s)
  case Nil
  show ?case by simp
next
  case (Cons a inputs)
  obtain k t where a: "a = (k, t)" by (cases a)
  let ?s' = "fst (update s k t)"
  have tail: "\<forall>u \<in> set (rep_times ?s' inputs). u - last_rep_time ?s' > 0.5"
    by (rule Cons.IH)
  from update_count_cases [of s k t] show ?case
  proof
    assume "rep_count ?s' = rep_count s \<and> last_rep_time ?s' = last_rep_time s"
    with tail show ?thesis by (simp add: a Let_def)
  next
    assume h: "rep_count ?s' = rep_count s + 1 \<and> last_rep_time ?s' = t
                 \<and> t - last_rep_time s > 0.5"
    with tail have "\<forall>u \<in> set (rep_times ?s' inputs). u - last_rep_time s > 0.5"
      by fastforce
    with h show ?thesis by (simp add: a Let_def)
  qed
qed

lemma rep_times_spaced:
  "sorted_wrt (\<lambda>t t'. t' - t > 0.5) (rep_times s inputs)"
proof (induction inputs arbitrary: s)
  case Nil
  show ?case by simp
next
  case (Cons a inputs)
  obtain k t where a: "a = (k, t)" by (cases a)
  let ?s' = "fst (update s k t)"
  have tail: "sorted_wrt (\<lambda>t t'. t' - t > 0.5) (rep_times ?s' inputs)"
    by (rule Cons.IH)
  show ?case
  proof (cases "rep_count ?s' > rep_count s")
    case False
    with tail show ?thesis by (simp add: a Let_def)
  next
    case True
    with update_count_cases [of s k t] have "last_rep_time ?s' = t" by auto
    with rep_times_after_last [of ?s' inputs]
    have "\<forall>u \<in> set (rep_times ?s' inputs). u - t > 0.5" by simp
    with tail True show ?thesis by (simp add: a Let_def)
  qed
qed

lemma rep_count_run:
  "rep_count (run s inputs) = rep_count s + length (rep_times s inputs)"
proof (induction inputs arbitrary: s)
  case Nil
  show ?case by simp
next
  case (Cons a inputs)
  obtain k t where a: "a = (k, t)" by (cases a)
  from update_count_cases [of s k t] Cons.IH [of "fst (update s k t)"]
  show ?case by (auto simp: a Let_def)
qed

text \<open>
  C1. On the synthetic oscillation (amplitude 0.3 around 0.5, confidence 0.9, one cycle of
  eight frames a quarter of a second apart, so a period of 2 seconds) the counter started
  by the session shows 1 after the first cycle, 3 after the second and 5 after the third:
  past the first cycle every full oscillation adds 2 to \<open>rep_count\<close>, one for each of its
  two reversals.
\<close>

theorem oscillation_counts_both_reversals:
  "rep_count (run (RepCounter 9) (timed_frames 100 0.25 oscillation_cycle)) = 1
   \<and> rep_count (run (RepCounter 9)
        (timed_frames 100 0.25 (oscillation_cycle @ oscillation_cycle))) = 3
   \<and> rep_count (run (RepCounter 9)
        (timed_frames 100 0.25 (oscillation_cycle @ oscillation_cycle @ oscillation_cycle))) = 5"
  by (simp add: oscillation_cycle_def oscillation_frame_def update_def Let_def RepCounter_def
        tracked_confidence_def tracked_y_def dict_get_def push_position_def direction_of_def
        count_rep_def nth_append)

text \<open>
  C2. When the tracked keypoint is present with confidence at least 0.5 and the buffer
  holds at least 3 positions once the new one is in, \<open>update\<close> counts a rep, and records
  its time, exactly when (a) a direction flag was set, (b) the new direction differs from
  it, (c) more than 0.5 seconds have passed since the last counted rep and (d) the
  positions in the buffer span more than 0.15. Otherwise count and timestamp stay. In both
  cases the direction flag becomes the new direction and the buffer holds the new position.
\<close>

theorem update_counts_rep_iff:
  assumes "keypoint_idx self < length keypoints"
      and "0.5 \<le> tracked_confidence self keypoints"
      and "3 \<le> length (push_position self (tracked_y self keypoints))"
  shows "let ps = push_position self (tracked_y self keypoints);
             direction_up = direction_of ps (tracked_y self keypoints);
             counted = (going_up self \<noteq> None \<and> going_up self \<noteq> Some direction_up
                        \<and> now - last_rep_time self > 0.5
                        \<and> \<bar>Max (set ps) - Min (set ps)\<bar> > 0.15)
         in update self keypoints now =
              (self\<lparr>positions := ps,
                    going_up := Some direction_up,
                    rep_count := (if counted then rep_count self + 1 else rep_count self),
                    last_rep_time := (if counted then now else last_rep_time self)\<rparr>,
               if counted then rep_count self + 1 else rep_count self)"
proof -
  from assms(1) have ne: "\<not> (keypoints = [] \<or> length keypoints \<le> keypoint_idx self)"
    by auto
  from assms(2) have conf: "\<not> tracked_confidence self keypoints < 0.5"
    by simp
  from assms(3) have len: "\<not> length (push_position self (tracked_y self keypoints)) < 3"
    by simp
  show ?thesis
    unfolding update_def Let_def count_rep_def using ne conf len
    by simp
qed

theorem update_counts_rep_iff_witness:
  "keypoint_idx falling_counter < length [[''y'' \<mapsto> 0.3 :: real, ''confidence'' \<mapsto> 0.9]]
   \<and> 0.5 \<le> tracked_confidence falling_counter [[''y'' \<mapsto> 0.3, ''confidence'' \<mapsto> 0.9]]
   \<and> 3 \<le> length (push_position falling_counter 0.3)
   \<and> update falling_counter [[''y'' \<mapsto> 0.3, ''confidence'' \<mapsto> 0.9]] 100 =
        (falling_counter\<lparr>positions := [0.8, 0.6, 0.3], going_up := Some True,
                          rep_count := 1, last_rep_time := 100\<rparr>, 1)"
  using update_counts_rep_iff
          [of falling_counter "[[''y'' \<mapsto> 0.3, ''confidence'' \<mapsto> 0.9]]" 100]
  by (simp add: falling_counter_def tracked_confidence_def tracked_y_def dict_get_def
        push_position_def direction_of_def Let_def)

text \<open>
  C3. When the keypoint list does not reach the tracked index (it is empty or too short),
  or the confidence read at the tracked index is below 0.5, \<open>update\<close> returns the current
  count and the state it was given: buffer, direction flag, count and timestamp unchanged.
\<close>

theorem update_absent_or_low_confidence:
  "length keypoints \<le> keypoint_idx self \<or> tracked_confidence self keypoints < 0.5
   \<Longrightarrow> update self keypoints now = (self, rep_count self)"
  by (auto simp: update_def Let_def)

theorem update_absent_or_low_confidence_witness:
  "length ([] :: keypoint list) \<le> keypoint_idx (RepCounter 9)
   \<and> update (RepCounter 9) [] 100 = (RepCounter 9, 0)
   \<and> tracked_confidence (RepCounter 0) [[''y'' \<mapsto> 0.4, ''confidence'' \<mapsto> 0.3]] < 0.5
   \<and> update (RepCounter 0) [[''y'' \<mapsto> 0.4, ''confidence'' \<mapsto> 0.3]] 100 = (RepCounter 0, 0)"
  using update_absent_or_low_confidence [of "[]" "RepCounter 9" 100]
        update_absent_or_low_confidence
          [of "[[''y'' \<mapsto> 0.4, ''confidence'' \<mapsto> 0.3]]" "RepCounter 0" 100]
  by (simp add: RepCounter_def tracked_confidence_def dict_get_def)

text \<open>
  C4. Over any sequence of calls with any clock readings, the readings at which a rep was
  counted lie more than 0.5 seconds apart, each later one after each earlier one; and these
  readings account for every increment of \<open>rep_count\<close>. So two reversals less than 0.5
  seconds apart add at most one rep.
\<close>

theorem reps_debounced:
  "sorted_wrt (\<lambda>t t'. t' - t > 0.5) (rep_times self inputs)
   \<and> rep_count (run self inputs) = rep_count self + length (rep_times self inputs)"
  using rep_times_spaced [of self inputs] rep_count_run [of self inputs] by blast

text \<open>
  C5. A call of \<open>update\<close> on a counter with capacity 10 and at most 10 buffered positions
  leaves at most 10 positions in the buffer; an accepted position is appended at the end,
  and the oldest position is dropped from the front when the buffer was full; a rejected
  one leaves the buffer as it was. The count after the call is at least the count before,
  and it is the value returned.
\<close>

theorem update_buffer_bounded_count_monotone:
  assumes "max_positions self = 10" and "length (positions self) \<le> 10"
  shows "length (positions (fst (update self keypoints now))) \<le> 10
       \<and> max_positions (fst (update self keypoints now)) = 10
       \<and> positions (fst (update self keypoints now)) =
           (if keypoint_idx self < length keypoints \<and> 0.5 \<le> tracked_confidence self keypoints
            then (if length (positions self) < 10
                  then positions self @ [tracked_y self keypoints]
                  else tl (positions self) @ [tracked_y self keypoints])
            else positions self)
       \<and> rep_count self \<le> rep_count (fst (update self keypoints now))
       \<and> snd (update self keypoints now) = rep_count (fst (update self keypoints now))"
proof -
  have p: "positions (fst (update self keypoints now)) =
           (if keypoint_idx self < length keypoints \<and> 0.5 \<le> tracked_confidence self keypoints
            then (if length (positions self) < 10
                  then positions self @ [tracked_y self keypoints]
                  else tl (positions self) @ [tracked_y self keypoints])
            else positions self)"
    using assms by (simp add: update_positions push_position_fifo)
  have l: "length (positions (fst (update self keypoints now))) \<le> 10"
    using assms by (simp add: p)
  have c: "rep_count self \<le> rep_count (fst (update self keypoints now))"
    using update_count_cases [of self keypoints now] by auto
  show ?thesis
    using p l c assms(1) by (simp add: update_max_positions update_returns_count)
qed

theorem update_buffer_bounded_count_monotone_witness:
  "max_positions (RepCounter 0) = 10 \<and> length (positions (RepCounter 0)) \<le> 10
   \<and> positions (fst (update (RepCounter 0) [[''y'' \<mapsto> 0.4, ''confidence'' \<mapsto> 0.9]] 100)) = [0.4]
   \<and> rep_count (RepCounter 0)
        \<le> rep_count (fst (update (RepCounter 0) [[''y'' \<mapsto> 0.4, ''confidence'' \<mapsto> 0.9]] 100))"
  using update_buffer_bounded_count_monotone
          [of "RepCounter 0" "[[''y'' \<mapsto> 0.4, ''confidence'' \<mapsto> 0.9]]" 100]
  by (simp add: RepCounter_def tracked_confidence_def tracked_y_def dict_get_def)

section \<open>Properties of the inference client\<close>

lemma call_inference_service_returns:
  "\<exists>result. fst (call_inference_service environ post frame_data) = Inr result"
  by (simp add: call_inference_service_def Let_def split: sum.split py_exception.split)

lemma call_inference_service_requests:
  "snd (call_inference_service environ post frame_data) = [(inference_url environ, frame_data)]"
  by (simp add: call_inference_service_def inference_url_def Let_def)

lemma call_inference_service_status:
  "post (inference_url environ) frame_data = Inr resp \<Longrightarrow> status resp \<noteq> 200 \<Longrightarrow>
   fst (call_inference_service environ post frame_data) =
     Inr [(''error'', JStr (''Inference service error: '' @ str_nat (status resp)))]"
  by (simp add: call_inference_service_def post_inference_def inference_url_def Let_def)

lemma call_inference_service_timeout:
  "post (inference_url environ) frame_data = Inl TimeoutError \<Longrightarrow>
   fst (call_inference_service environ post frame_data) =
     Inr [(''error'', JStr ''Inference service timeout'')]"
  by (simp add: call_inference_service_def post_inference_def inference_url_def Let_def)

lemma call_inference_service_failure:
  "post (inference_url environ) frame_data = Inl (Exception e) \<Longrightarrow>
   fst (call_inference_service environ post frame_data) =
     Inr [(''error'', JStr (''Error calling inference service: '' @ e))]"
  by (simp add: call_inference_service_def post_inference_def inference_url_def Let_def)

text \<open>
  C6. \<open>call_inference_service\<close> always returns a result and never raises, and it issues
  the one request. A response whose status is outside 200-299 gives the error result with
  the status code in it; a timeout gives the timeout error result; any other exception
  gives the generic error result with the text of the exception in it.
\<close>

theorem inference_failures_are_results:
  "(\<exists>result. fst (call_inference_service environ post frame_data) = Inr result)
   \<and> snd (call_inference_service environ post frame_data) = [(inference_url environ, frame_data)]
   \<and> (\<forall>resp. post (inference_url environ) frame_data = Inr resp
          \<and> (status resp < 200 \<or> 299 < status resp)
        \<longrightarrow> fst (call_inference_service environ post frame_data) =
              Inr [(''error'', JStr (''Inference service error: '' @ str_nat (status resp)))])
   \<and> (post (inference_url environ) frame_data = Inl TimeoutError
        \<longrightarrow> fst (call_inference_service environ post frame_data) =
              Inr [(''error'', JStr ''Inference service timeout'')])
   \<and> (\<forall>e. post (inference_url environ) frame_data = Inl (Exception e)
        \<longrightarrow> fst (call_inference_service environ post frame_data) =
              Inr [(''error'', JStr (''Error calling inference service: '' @ e))])"
  using call_inference_service_returns [of environ post frame_data]
        call_inference_service_requests [of environ post frame_data]
        call_inference_service_status [of post environ frame_data]
        call_inference_service_timeout [of post environ frame_data]
        call_inference_service_failure [of post environ frame_data]
  by (intro conjI allI impI) auto

theorem inference_failures_are_results_witness:
  "unavailable (inference_url Map.empty) ''AAAA'' = Inr \<lparr>status = 503, json = Inr []\<rparr>
   \<and> call_inference_service Map.empty unavailable ''AAAA'' =
       (Inr [(''error'', JStr ''Inference service error: 503'')],
        [(''http://inference-service:8000/inference'', ''AAAA'')])
   \<and> silent (inference_url Map.empty) ''AAAA'' = Inl TimeoutError
   \<and> fst (call_inference_service Map.empty silent ''AAAA'') =
       Inr [(''error'', JStr ''Inference service timeout'')]
   \<and> refused (inference_url Map.empty) ''AAAA'' = Inl (Exception ''Connection refused'')
   \<and> fst (call_inference_service Map.empty refused ''AAAA'') =
       Inr [(''error'', JStr ''Error calling inference service: Connection refused'')]"
proof -
  have u: "unavailable (inference_url Map.empty) ''AAAA'' = Inr \<lparr>status = 503, json = Inr []\<rparr>"
    by (simp add: unavailable_def)
  have s: "silent (inference_url Map.empty) ''AAAA'' = Inl TimeoutError"
    by (simp add: silent_def)
  have r: "refused (inference_url Map.empty) ''AAAA'' = Inl (Exception ''Connection refused'')"
    by (simp add: refused_def)
  have n: "str_nat 503 = ''503''"
    by code_simp
  have i: "inference_url Map.empty = ''http://inference-service:8000/inference''"
    by (simp add: inference_url_def dict_get_def)
  from inference_failures_are_results [of Map.empty unavailable "''AAAA''"] u n i
  have a: "call_inference_service Map.empty unavailable ''AAAA'' =
       (Inr [(''error'', JStr ''Inference service error: 503'')],
        [(''http://inference-service:8000/inference'', ''AAAA'')])"
    by (simp add: prod_eq_iff)
  from inference_failures_are_results [of Map.empty silent "''AAAA''"] s
  have b: "fst (call_inference_service Map.empty silent ''AAAA'') =
       Inr [(''error'', JStr ''Inference service timeout'')]"
    by simp
  from inference_failures_are_results [of Map.empty refused "''AAAA''"] r
  have c: "fst (call_inference_service Map.empty refused ''AAAA'') =
       Inr [(''error'', JStr ''Error calling inference service: Connection refused'')]"
    by simp
  from u s r a b c show ?thesis by blast
qed

section \<open>Properties of the connection manager\<close>

text \<open>
  C7. With \<open>c1\<close> on a stale socket and \<open>c2\<close> on a healthy one, \<open>broadcast\<close> raises the
  exception of the first send and leaves the registry and the sockets as they were:
  \<open>c2\<close> is registered, its socket works, and it has been sent nothing.
\<close>

theorem broadcast_stops_at_stale_connection:
  "broadcast two_clients stale_world notice =
     Raised (Exception ''connection closed'') (two_clients, stale_world)
   \<and> map_of (active_connections two_clients) ''c2'' = Some 2
   \<and> failure (sockets stale_world 2) = None
   \<and> outbox (sockets stale_world 2) = []"
  by (simp add: broadcast_def two_clients_def stale_world_def healthy_world_def send_json_def)








section \<open>Properties of the session loop\<close>

text \<open>
  C9, as amended. For a result of the inference call without an \<open>error\<close> entry: when it
  holds a non-empty list of keypoints, the message sent is the result with \<open>rep_count\<close>
  set to the integer \<open>update\<close> returns and \<open>form_quality\<close> set to the string
  \<open>analyze_form\<close> returns, and the session keeps the updated counter; when the list is
  empty, only \<open>rep_count\<close> is added; when there is no \<open>keypoints\<close> entry, the result is
  sent as it is.
\<close>

theorem relay_result_enriches:
  assumes "map_of analysis_results ''error'' = None"
  shows "(\<forall>keypoints. map_of analysis_results ''keypoints'' = Some (JKeypoints keypoints) \<and> keypoints \<noteq> []
            \<longrightarrow> relay_result sess analysis_results now =
                  Inr (sess\<lparr>rep_counter := fst (update (rep_counter sess) keypoints now)\<rparr>,
                       AList.update ''form_quality'' (JStr (analyze_form keypoints (exercise_type sess)))
                         (AList.update ''rep_count''
                            (JInt (int (snd (update (rep_counter sess) keypoints now))))
                            analysis_results)))
       \<and> (map_of analysis_results ''keypoints'' = Some (JKeypoints [])
            \<longrightarrow> relay_result sess analysis_results now =
                  Inr (sess, AList.update ''rep_count'' (JInt (int (rep_count (rep_counter sess))))
                               analysis_results))
       \<and> (map_of analysis_results ''keypoints'' = None
            \<longrightarrow> relay_result sess analysis_results now = Inr (sess, analysis_results))"
  using assms
  by (auto simp: relay_result_def update_any_def analyze_form_any_def py_true_def Let_def
        update_def split: prod.splits)

theorem relay_result_enriches_witness:
  "map_of pose ''error'' = None
   \<and> map_of pose ''keypoints'' = Some (JKeypoints (oscillation_frame 0.5))
   \<and> oscillation_frame 0.5 \<noteq> []
   \<and> relay_result (new_session 0) pose 100 =
       Inr ((new_session 0)\<lparr>rep_counter := (RepCounter 9)\<lparr>positions := [0.5]\<rparr>\<rparr>,
            [(''keypoints'', JKeypoints (oscillation_frame 0.5)),
             (''rep_count'', JInt 0), (''form_quality'', JStr ''good'')])"
proof -
  have e: "map_of pose ''error'' = None"
    and k: "map_of pose ''keypoints'' = Some (JKeypoints (oscillation_frame 0.5))"
    and n: "oscillation_frame 0.5 \<noteq> []"
    by (simp_all add: pose_def oscillation_frame_def)
  have u: "update (RepCounter 9) (oscillation_frame 0.5) 100 = ((RepCounter 9)\<lparr>positions := [0.5]\<rparr>, 0)"
    by (simp add: update_def oscillation_frame_def RepCounter_def tracked_confidence_def
          tracked_y_def dict_get_def push_position_def nth_append Let_def)
  have f: "analyze_form (oscillation_frame 0.5) ''squat'' = ''good''"
    by (simp add: analyze_form_def oscillation_frame_def)
  from relay_result_enriches [OF e, of "new_session 0" 100] k n
  have "relay_result (new_session 0) pose 100 =
                  Inr ((new_session 0)\<lparr>rep_counter := fst (update (rep_counter (new_session 0)) (oscillation_frame 0.5) 100)\<rparr>,
                       AList.update ''form_quality'' (JStr (analyze_form (oscillation_frame 0.5) (exercise_type (new_session 0))))
                         (AList.update ''rep_count''
                            (JInt (int (snd (update (rep_counter (new_session 0)) (oscillation_frame 0.5) 100))))
                            pose))"
    by blast
  with u f have "relay_result (new_session 0) pose 100 =
       Inr ((new_session 0)\<lparr>rep_counter := (RepCounter 9)\<lparr>positions := [0.5]\<rparr>\<rparr>,
            [(''keypoints'', JKeypoints (oscillation_frame 0.5)),
             (''rep_count'', JInt 0), (''form_quality'', JStr ''good'')])"
    by (simp add: new_session_def pose_def)
  with e k n show ?thesis by blast
qed

text \<open>
  C9 as stated fails on a successful result without a \<open>keypoints\<close> entry: the message
  sent has neither a \<open>rep_count\<close> nor a \<open>form_quality\<close> field.
\<close>

theorem relay_result_without_keypoints:
  "map_of no_pose ''error'' = None
   \<and> relay_result (new_session 0) no_pose 100 = Inr (new_session 0, no_pose)
   \<and> map_of no_pose ''rep_count'' = None
   \<and> map_of no_pose ''form_quality'' = None"
  by (simp add: no_pose_def relay_result_def)

section \<open>Properties of the origin gate\<close>




end
